theory Spec2Isabelle
  imports Complex_Main "HOL-Library.Sublist"
begin

section \<open>The store (stores/appStore.ts)\<close>

text \<open>
  A JavaScript string is modelled as a \<open>string\<close>, each \<open>char\<close> standing for one
  code unit below 256. A \<open>number\<close> that holds a reading of \<open>Date.now()\<close> is a
  \<open>nat\<close> (milliseconds since the epoch).
\<close>

datatype Role = User | Assistant | System

text \<open>The TypeScript type \<open>any\<close> (the fields \<open>metadata\<close> and \<open>systemHealth\<close>).\<close>

datatype any =
    Null
  | Boolean bool
  | Number int
  | Text string
  | Array "any list"
  | Object "(string \<times> any) list"

record Message =
  role :: Role
  content :: string
  timestamp :: nat

record Document =
  doc_id :: string
  filename :: string
  doc_content :: string
  pii_removed :: bool
  metadata :: any

record Conversation =
  conv_id :: string
  conv_title :: string
  conv_timestamp :: nat
  conv_messages :: "Message list"

record AppStore =
  messages :: "Message list"
  documents :: "Document list"
  selectedModel :: string
  availableModels :: "string list"
  isProcessing :: bool
  systemHealth :: any
  conversations :: "Conversation list"
  currentConversationId :: string

text \<open>
  The store is built with zustand's \<open>create\<close>; every action calls \<open>set\<close> with a
  partial state (an object literal naming some fields) or with a function from the
  current state to a partial state. \<open>set\<close> merges the partial state into the current
  one: the fields the literal names are replaced, all others are kept. A partial state
  is the list of its field assignments.
\<close>

datatype field =
    F_messages "Message list"
  | F_documents "Document list"
  | F_selectedModel string
  | F_availableModels "string list"
  | F_isProcessing bool
  | F_systemHealth any
  | F_conversations "Conversation list"
  | F_currentConversationId string

fun assign :: "AppStore \<Rightarrow> field \<Rightarrow> AppStore" where
  "assign s (F_messages v) = s\<lparr>messages := v\<rparr>"
| "assign s (F_documents v) = s\<lparr>documents := v\<rparr>"
| "assign s (F_selectedModel v) = s\<lparr>selectedModel := v\<rparr>"
| "assign s (F_availableModels v) = s\<lparr>availableModels := v\<rparr>"
| "assign s (F_isProcessing v) = s\<lparr>isProcessing := v\<rparr>"
| "assign s (F_systemHealth v) = s\<lparr>systemHealth := v\<rparr>"
| "assign s (F_conversations v) = s\<lparr>conversations := v\<rparr>"
| "assign s (F_currentConversationId v) = s\<lparr>currentConversationId := v\<rparr>"

definition set_partial :: "field list \<Rightarrow> AppStore \<Rightarrow> AppStore" where
  "set_partial partial s = foldl assign s partial"

definition set_with :: "(AppStore \<Rightarrow> field list) \<Rightarrow> AppStore \<Rightarrow> AppStore" where
  "set_with f s = set_partial (f s) s"

text \<open>The initial state; \<open>now\<close> is the reading of \<open>Date.now()\<close> when the store is created.\<close>

definition initialStore :: "nat \<Rightarrow> AppStore" where
  "initialStore now =
     \<lparr> messages = [],
       documents = [],
       selectedModel = ''llama2-7b'',
       availableModels = [''llama2-7b'', ''mistral-7b'', ''phi-2''],
       isProcessing = False,
       systemHealth = Null,
       conversations =
         [\<lparr> conv_id = ''1'', conv_title = ''New Chat'', conv_timestamp = now,
            conv_messages = [] \<rparr>],
       currentConversationId = ''1'' \<rparr>"

definition addMessage :: "Message \<Rightarrow> AppStore \<Rightarrow> AppStore" where
  "addMessage message = set_with (\<lambda>state. [F_messages (messages state @ [message])])"

definition clearMessages :: "AppStore \<Rightarrow> AppStore" where
  "clearMessages = set_partial [F_messages []]"

definition addDocument :: "Document \<Rightarrow> AppStore \<Rightarrow> AppStore" where
  "addDocument document = set_with (\<lambda>state. [F_documents (documents state @ [document])])"

definition setSelectedModel :: "string \<Rightarrow> AppStore \<Rightarrow> AppStore" where
  "setSelectedModel model = set_partial [F_selectedModel model]"

definition setAvailableModels :: "string list \<Rightarrow> AppStore \<Rightarrow> AppStore" where
  "setAvailableModels models = set_partial [F_availableModels models]"

definition setProcessing :: "bool \<Rightarrow> AppStore \<Rightarrow> AppStore" where
  "setProcessing processing = set_partial [F_isProcessing processing]"

definition setSystemHealth :: "any \<Rightarrow> AppStore \<Rightarrow> AppStore" where
  "setSystemHealth health = set_partial [F_systemHealth health]"

definition addConversation :: "Conversation \<Rightarrow> AppStore \<Rightarrow> AppStore" where
  "addConversation conversation =
     set_with (\<lambda>state. [F_conversations (conversations state @ [conversation])])"

definition setCurrentConversation :: "string \<Rightarrow> AppStore \<Rightarrow> AppStore" where
  "setCurrentConversation i = set_partial [F_currentConversationId i]"

section \<open>Strings and the clock\<close>

text \<open>
  \<open>String.prototype.trim\<close> removes white space and line terminators from both ends. Among
  the code units below 256 these are tab, line feed, vertical tab, form feed, carriage
  return, space and the no-break space.
\<close>

definition isWhiteSpace :: "char \<Rightarrow> bool" where
  "isWhiteSpace c = (c \<in> set [CHR 0x09, CHR 0x0A, CHR 0x0B, CHR 0x0C, CHR 0x0D, CHR 0x20, CHR 0xA0])"

definition trim :: "string \<Rightarrow> string" where
  "trim s = rev (dropWhile isWhiteSpace (rev (dropWhile isWhiteSpace s)))"

text \<open>\<open>Number.prototype.toString\<close> on a non-negative integer: its decimal digits.\<close>

definition digitChar :: "nat \<Rightarrow> char" where
  "digitChar d = ''0123456789'' ! d"

function toString :: "nat \<Rightarrow> string" where
  "toString n = (if n < 10 then [digitChar n] else toString (n div 10) @ [digitChar (n mod 10)])"
  by pat_completeness auto
termination
  by (relation "measure (\<lambda>n. n)") auto

declare toString.simps [simp del]

section \<open>The application component (App.tsx)\<close>

text \<open>
  The component's own state (\<open>useState\<close>) and the store it reads through
  \<open>useAppStore\<close>. A handler closes over the values of one render and ends with the
  updates it made.
\<close>

datatype Theme = light | dark

record App =
  message :: string
  isLoading :: bool
  sidebarOpen :: bool
  theme :: Theme
  showNewChat :: bool
  store :: AppStore

text \<open>
  \<open>invoke\<close> sends a command to the backend. The backend is a parameter of the model: a
  function from the command to \<open>Inr\<close> of the value the promise resolves to, or \<open>Inl\<close> of
  the error it rejects with (as the text \<open>String(error)\<close>). A handler returns, beside the
  new state, the commands it invoked, in order.
\<close>

datatype command =
    send_message string string
  | process_document string string
  | list_available_models
  | download_model string

type_synonym backend = "command \<Rightarrow> string + string"

text \<open>
  \<open>handleSendMessage\<close>; \<open>t1\<close> and \<open>t2\<close> are the readings of \<open>Date.now()\<close> for the user's
  message and for the message that follows the backend's answer. The handler is
  modelled as running to its end with no other handler in between.
\<close>

definition handleSendMessage :: "backend \<Rightarrow> nat \<Rightarrow> nat \<Rightarrow> App \<Rightarrow> App \<times> command list" where
  "handleSendMessage invoke t1 t2 a =
     (if trim (message a) = [] \<or> isLoading a then (a, [])
      else
        let userMessage = trim (message a);
            a1 = a\<lparr>message := [], isLoading := True,
                   store := addMessage \<lparr>role = User, content = userMessage, timestamp = t1\<rparr> (store a)\<rparr>;
            cmd = send_message userMessage (selectedModel (store a));
            a2 = (case invoke cmd of
                    Inr response \<Rightarrow>
                      a1\<lparr>store := addMessage
                          \<lparr>role = Assistant, content = response, timestamp = t2\<rparr> (store a1)\<rparr>
                  | Inl error \<Rightarrow>
                      a1\<lparr>store := addMessage
                          \<lparr>role = System, content = ''Error: '' @ error, timestamp = t2\<rparr> (store a1)\<rparr>)
        in (a2\<lparr>isLoading := False\<rparr>, [cmd]))"

text \<open>\<open>handleNewChat\<close>; \<open>now1\<close> and \<open>now2\<close> are its two readings of \<open>Date.now()\<close>.\<close>

definition handleNewChat :: "nat \<Rightarrow> nat \<Rightarrow> App \<Rightarrow> App" where
  "handleNewChat now1 now2 a =
     (let newConversation =
            \<lparr>conv_id = toString now1, conv_title = ''New Chat'', conv_timestamp = now2,
             conv_messages = []\<rparr>
      in a\<lparr>store := clearMessages
                 (setCurrentConversation (conv_id newConversation)
                    (addConversation newConversation (store a)))\<rparr>)"

text \<open>
  The conversations that \<open>currentConversationId\<close> resolves to, and the click on the
  \<open>k\<close>-th conversation of the sidebar (\<open>onClick={() => setCurrentConversation(conv.id)}\<close>
  inside \<open>conversations.map\<close>; there is no button beyond the list).
\<close>

definition currentConversations :: "AppStore \<Rightarrow> Conversation list" where
  "currentConversations s =
     filter (\<lambda>c. conv_id c = currentConversationId s) (conversations s)"

definition clickConversation :: "nat \<Rightarrow> App \<Rightarrow> App" where
  "clickConversation k a =
     (if k < length (conversations (store a))
      then a\<lparr>store := setCurrentConversation (conv_id (conversations (store a) ! k)) (store a)\<rparr>
      else a)"

section \<open>The model selector (ModelSelector component)\<close>

record ModelSelector =
  isOpen :: bool
  downloading :: "string option"

definition handleModelSelect :: "string \<Rightarrow> ModelSelector \<times> AppStore \<Rightarrow> ModelSelector \<times> AppStore" where
  "handleModelSelect model = (\<lambda>(ms, s). (ms\<lparr>isOpen := False\<rparr>, setSelectedModel model s))"

section \<open>Numbers\<close>

text \<open>
  A JavaScript number is an IEEE 754 double. \<open>Finite m e\<close> stands for the number
  \<open>m * 2\<^sup>e\<close>; a double is such a number with \<open>\<bar>m\<bar> < 2\<^sup>5\<^sup>3\<close> and \<open>-1074 \<le> e \<le> 971\<close>. The
  sign of a zero is not kept: no comparison tells \<open>-0\<close> from \<open>+0\<close>.
\<close>

datatype number = Finite int int | PosInfinity | NegInfinity | NaN

definition finiteValue :: "int \<Rightarrow> int \<Rightarrow> real" where
  "finiteValue m e = (if 0 \<le> e then of_int m * 2 ^ nat e else of_int m / 2 ^ nat (- e))"

function bitLength :: "nat \<Rightarrow> nat" where
  "bitLength n = (if n = 0 then 0 else Suc (bitLength (n div 2)))"
  by pat_completeness auto
termination
  by (relation "measure (\<lambda>n. n)") auto

declare bitLength.simps [simp del]

text \<open>
  Rounding of the exact value \<open>m * 2\<^sup>e\<close> to the nearest double, ties to the even
  significand: the result keeps 53 bits, or fewer below the smallest normal number
  (the exponent does not go below \<open>-1074\<close>), and is an infinity from \<open>2\<^sup>1\<^sup>0\<^sup>2\<^sup>4\<close> on.
\<close>

definition roundToDouble :: "int \<Rightarrow> int \<Rightarrow> number" where
  "roundToDouble m e =
     (if m = 0 then Finite 0 0
      else
        let a = nat \<bar>m\<bar>;
            e' = max (e + int (bitLength a) - 53) (- 1074);
            k = nat (e' - e);
            q = a div 2 ^ k;
            r = a mod 2 ^ k;
            q' = (if e' \<le> e then a * 2 ^ nat (e - e')
                  else if 2 ^ k < 2 * r \<or> (2 * r = 2 ^ k \<and> odd q) then q + 1
                  else q)
        in if 971 < e' \<or> (e' = 971 \<and> 2 ^ 53 \<le> q')
           then (if 0 < m then PosInfinity else NegInfinity)
           else Finite (sgn m * int q') e')"

fun signOf :: "number \<Rightarrow> int" where
  "signOf (Finite m e) = sgn m"
| "signOf PosInfinity = 1"
| "signOf NegInfinity = - 1"
| "signOf NaN = 0"

text \<open>The operator \<open>*\<close> on numbers.\<close>

fun multiply :: "number \<Rightarrow> number \<Rightarrow> number" where
  "multiply (Finite m1 e1) (Finite m2 e2) = roundToDouble (m1 * m2) (e1 + e2)"
| "multiply NaN y = NaN"
| "multiply x NaN = NaN"
| "multiply x y =
     (if signOf x * signOf y = 0 then NaN
      else if 0 < signOf x * signOf y then PosInfinity
      else NegInfinity)"

text \<open>The operator \<open><\<close> on numbers; a comparison with \<open>NaN\<close> is false.\<close>

fun lessThan :: "number \<Rightarrow> number \<Rightarrow> bool" where
  "lessThan (Finite m1 e1) (Finite m2 e2) =
     (let k = min e1 e2 in m1 * 2 ^ nat (e1 - k) < m2 * 2 ^ nat (e2 - k))"
| "lessThan NaN y = False"
| "lessThan x NaN = False"
| "lessThan NegInfinity y = (y \<noteq> NegInfinity)"
| "lessThan x PosInfinity = (x \<noteq> PosInfinity)"
| "lessThan x y = False"

text \<open>
  The literals: an integer literal is the integer itself, \<open>0.6\<close> is the double
  \<open>0x3FE3333333333333\<close> and \<open>0.8\<close> is the double \<open>0x3FE999999999999A\<close>.
\<close>

definition integerLiteral :: "int \<Rightarrow> number" where
  "integerLiteral n = Finite n 0"

definition literal_0_6 :: number where
  "literal_0_6 = Finite 5404319552844595 (- 53)"

definition literal_0_8 :: number where
  "literal_0_8 = Finite 7205759403792794 (- 53)"

section \<open>The status bar (components/StatusBar.tsx)\<close>

text \<open>
  \<open>getStatusColor\<close>. A metric that is \<open>undefined\<close> is converted to \<open>NaN\<close> by the
  comparison.
\<close>

definition getStatusColor :: "number \<Rightarrow> number \<Rightarrow> string" where
  "getStatusColor v threshold =
     (if lessThan v (multiply threshold literal_0_6) then ''text-green-400''
      else if lessThan v (multiply threshold literal_0_8) then ''text-yellow-400''
      else ''text-red-400'')"

section \<open>Regular expressions, as far as the PII patterns use them\<close>

text \<open>
  A character class is a list of ranges, as written between the brackets; a literal
  character is the class of that character alone. A quantifier \<open>{n,m}\<close> is
  \<open>Repeat n (Some m)\<close>, \<open>{n,}\<close> is \<open>Repeat n None\<close>; \<open>?\<close> is \<open>{0,1}\<close>, \<open>+\<close> is \<open>{1,}\<close> and
  \<open>{n}\<close> is \<open>{n,n}\<close>. \<open>WordBoundary\<close> is the assertion \<open>\b\<close>.
\<close>

type_synonym charclass = "(char \<times> char) list"

datatype regex =
    Atom charclass
  | WordBoundary
  | Empty
  | Seq regex regex
  | Repeat nat "nat option" regex

definition inClass :: "charclass \<Rightarrow> char \<Rightarrow> bool" where
  "inClass cls c =
     list_ex (\<lambda>(lo, hi). (of_char lo :: nat) \<le> of_char c \<and> (of_char c :: nat) \<le> of_char hi) cls"

text \<open>\<open>\d\<close>, \<open>\s\<close> (on code units below 256) and the word characters of \<open>\b\<close>.\<close>

definition digit :: charclass where
  "digit = [(CHR ''0'', CHR ''9'')]"

definition space :: charclass where
  "space = [(CHR 0x09, CHR 0x0D), (CHR 0x20, CHR 0x20), (CHR 0xA0, CHR 0xA0)]"

definition wordChar :: charclass where
  "wordChar = [(CHR ''a'', CHR ''z''), (CHR ''A'', CHR ''Z''), (CHR ''0'', CHR ''9''),
               (CHR ''_'', CHR ''_'')]"

definition lit :: "char \<Rightarrow> regex" where
  "lit c = Atom [(c, c)]"

definition times :: "nat \<Rightarrow> regex \<Rightarrow> regex" where
  "times n r = Repeat n (Some n) r"

definition opt :: "regex \<Rightarrow> regex" where
  "opt r = Repeat 0 (Some 1) r"

definition plus :: "regex \<Rightarrow> regex" where
  "plus r = Repeat 1 None r"

definition seq :: "regex list \<Rightarrow> regex" where
  "seq rs = foldr Seq rs Empty"

text \<open>
  A position in the text: the character before it, if any, and the rest of the text.
  \<open>matchFrom r p\<close> lists the positions at which a match of \<open>r\<close> that starts at \<open>p\<close> can
  end. \<open>RegExp.prototype.test\<close> only asks whether some match exists, so the order in
  which a backtracking matcher tries them does not matter.
\<close>

type_synonym position = "char option \<times> string"

definition isWordAt :: "char option \<Rightarrow> bool" where
  "isWordAt c = (case c of None \<Rightarrow> False | Some x \<Rightarrow> inClass wordChar x)"

definition nextChar :: "string \<Rightarrow> char option" where
  "nextChar s = (case s of [] \<Rightarrow> None | c # cs \<Rightarrow> Some c)"

primrec iter :: "nat \<Rightarrow> (position \<Rightarrow> position list) \<Rightarrow> position \<Rightarrow> position list" where
  "iter 0 f p = [p]"
| "iter (Suc n) f p = concat (map (iter n f) (f p))"

primrec upTo :: "nat \<Rightarrow> (position \<Rightarrow> position list) \<Rightarrow> position \<Rightarrow> position list" where
  "upTo 0 f p = [p]"
| "upTo (Suc n) f p = p # concat (map (upTo n f) (f p))"

text \<open>
  With no upper bound, the further repetitions are bounded by the length of the rest of
  the text: a repetition that consumes nothing reaches no new position.
\<close>

definition further :: "nat option \<Rightarrow> nat \<Rightarrow> position \<Rightarrow> nat" where
  "further mx n p = (case mx of None \<Rightarrow> length (snd p) | Some m \<Rightarrow> m - n)"

primrec matchFrom :: "regex \<Rightarrow> position \<Rightarrow> position list" where
  "matchFrom (Atom cls) =
     (\<lambda>p. case snd p of [] \<Rightarrow> [] | c # cs \<Rightarrow> if inClass cls c then [(Some c, cs)] else [])"
| "matchFrom WordBoundary =
     (\<lambda>p. if isWordAt (fst p) \<noteq> isWordAt (nextChar (snd p)) then [p] else [])"
| "matchFrom Empty = (\<lambda>p. [p])"
| "matchFrom (Seq a b) = (\<lambda>p. concat (map (matchFrom b) (matchFrom a p)))"
| "matchFrom (Repeat n mx a) =
     (\<lambda>p. concat (map (\<lambda>q. upTo (further mx n q) (matchFrom a) q) (iter n (matchFrom a) p)))"

fun searchFrom :: "regex \<Rightarrow> char option \<Rightarrow> string \<Rightarrow> bool" where
  "searchFrom r prev [] = (matchFrom r (prev, []) \<noteq> [])"
| "searchFrom r prev (c # cs) = (matchFrom r (prev, c # cs) \<noteq> [] \<or> searchFrom r (Some c) cs)"

definition test :: "regex \<Rightarrow> string \<Rightarrow> bool" where
  "test r text = searchFrom r None text"

section \<open>The PII guard (PIIGuard component)\<close>

definition ssnRegex :: regex where
  "ssnRegex =
     seq [WordBoundary, times 3 (Atom digit), lit CHR ''-'', times 2 (Atom digit), lit CHR ''-'',
          times 4 (Atom digit), WordBoundary]"

definition emailRegex :: regex where
  "emailRegex =
     seq [WordBoundary,
          plus (Atom [(CHR ''A'', CHR ''Z''), (CHR ''a'', CHR ''z''), (CHR ''0'', CHR ''9''),
                      (CHR ''.'', CHR ''.''), (CHR ''_'', CHR ''_''), (CHR ''%'', CHR ''%''),
                      (CHR ''+'', CHR ''+''), (CHR ''-'', CHR ''-'')]),
          lit CHR ''@'',
          plus (Atom [(CHR ''A'', CHR ''Z''), (CHR ''a'', CHR ''z''), (CHR ''0'', CHR ''9''),
                      (CHR ''.'', CHR ''.''), (CHR ''-'', CHR ''-'')]),
          lit CHR ''.'',
          Repeat 2 None (Atom [(CHR ''A'', CHR ''Z''), (CHR ''|'', CHR ''|''), (CHR ''a'', CHR ''z'')]),
          WordBoundary]"

definition separator :: charclass where
  "separator = [(CHR ''-'', CHR ''-''), (CHR ''.'', CHR ''.'')] @ space"

definition phoneRegex :: regex where
  "phoneRegex =
     seq [WordBoundary,
          opt (seq [opt (lit CHR ''+''), lit CHR ''1'', opt (Atom separator)]),
          opt (lit CHR ''(''), times 3 (Atom digit), opt (lit CHR '')''), opt (Atom separator),
          times 3 (Atom digit), opt (Atom separator), times 4 (Atom digit), WordBoundary]"

definition creditCardRegex :: regex where
  "creditCardRegex =
     seq [WordBoundary,
          times 3 (seq [times 4 (Atom digit), opt (Atom ((CHR ''-'', CHR ''-'') # space))]),
          times 4 (Atom digit), WordBoundary]"

definition ipRegex :: regex where
  "ipRegex =
     seq [WordBoundary,
          times 3 (seq [Repeat 1 (Some 3) (Atom digit), lit CHR ''.'']),
          Repeat 1 (Some 3) (Atom digit), WordBoundary]"

definition patterns :: "(regex \<times> string) list" where
  "patterns =
     [(ssnRegex, ''SSN''), (emailRegex, ''Email''), (phoneRegex, ''Phone''),
      (creditCardRegex, ''Credit Card''), (ipRegex, ''IP Address'')]"

text \<open>
  The effect of \<open>PIIGuard\<close>: the list \<open>detected\<close> it stores with \<open>setDetectedPII\<close>, and the
  callback it calls.
\<close>

datatype callback = onPIIDetected | onPIICleared

definition detect :: "string \<Rightarrow> string list" where
  "detect text = map snd (filter (\<lambda>(r, t). test r text) patterns)"

definition PIIGuard :: "string \<Rightarrow> string list \<times> callback" where
  "PIIGuard text =
     (let detected = detect text
      in (detected, if length detected > 0 then onPIIDetected else onPIICleared))"

section \<open>States the handlers can reach\<close>

text \<open>The state of the component at its first render (the initial values of \<open>useState\<close>).\<close>

definition initialApp :: "nat \<Rightarrow> App" where
  "initialApp now =
     \<lparr>message = [], isLoading = False, sidebarOpen = True, theme = dark, showNewChat = False,
      store = initialStore now\<rparr>"

text \<open>
  The store states that the components can produce: every action may be called with
  any argument, except that \<open>setCurrentConversation\<close> is only ever called with the id of
  a conversation of the list (the sidebar buttons, and \<open>handleNewChat\<close> right after it
  added the conversation).
\<close>

inductive reachable :: "AppStore \<Rightarrow> bool" where
  r_init: "reachable (initialStore now)"
| r_addMessage: "reachable s \<Longrightarrow> reachable (addMessage m s)"
| r_clearMessages: "reachable s \<Longrightarrow> reachable (clearMessages s)"
| r_addDocument: "reachable s \<Longrightarrow> reachable (addDocument d s)"
| r_setSelectedModel: "reachable s \<Longrightarrow> reachable (setSelectedModel model s)"
| r_setAvailableModels: "reachable s \<Longrightarrow> reachable (setAvailableModels models s)"
| r_setProcessing: "reachable s \<Longrightarrow> reachable (setProcessing b s)"
| r_setSystemHealth: "reachable s \<Longrightarrow> reachable (setSystemHealth h s)"
| r_addConversation: "reachable s \<Longrightarrow> reachable (addConversation c s)"
| r_setCurrentConversation:
    "reachable s \<Longrightarrow> c \<in> set (conversations s) \<Longrightarrow> reachable (setCurrentConversation (conv_id c) s)"

text \<open>The character before the end of a text, for the word boundary at a match's start.\<close>

definition lastChar :: "string \<Rightarrow> char option" where
  "lastChar s = (if s = [] then None else Some (last s))"

section \<open>Lemmas on the store actions\<close>

text \<open>What each action does to the state, as a record update.\<close>

lemma addMessage_eq: "addMessage m s = s\<lparr>messages := messages s @ [m]\<rparr>"
  by (simp add: addMessage_def set_with_def set_partial_def)

lemma clearMessages_eq: "clearMessages s = s\<lparr>messages := []\<rparr>"
  by (simp add: clearMessages_def set_partial_def)

lemma addDocument_eq: "addDocument d s = s\<lparr>documents := documents s @ [d]\<rparr>"
  by (simp add: addDocument_def set_with_def set_partial_def)

lemma setSelectedModel_eq: "setSelectedModel m s = s\<lparr>selectedModel := m\<rparr>"
  by (simp add: setSelectedModel_def set_partial_def)

lemma addConversation_eq:
  "addConversation c s = s\<lparr>conversations := conversations s @ [c]\<rparr>"
  by (simp add: addConversation_def set_with_def set_partial_def)

lemma setCurrentConversation_eq:
  "setCurrentConversation i s = s\<lparr>currentConversationId := i\<rparr>"
  by (simp add: setCurrentConversation_def set_partial_def)

lemma setAvailableModels_eq: "setAvailableModels ms s = s\<lparr>availableModels := ms\<rparr>"
  by (simp add: setAvailableModels_def set_partial_def)

lemma setProcessing_eq: "setProcessing b s = s\<lparr>isProcessing := b\<rparr>"
  by (simp add: setProcessing_def set_partial_def)

lemma setSystemHealth_eq: "setSystemHealth h s = s\<lparr>systemHealth := h\<rparr>"
  by (simp add: setSystemHealth_def set_partial_def)

lemmas store_action_eqs =
  addMessage_eq clearMessages_eq addDocument_eq setSelectedModel_eq addConversation_eq
  setCurrentConversation_eq setAvailableModels_eq setProcessing_eq setSystemHealth_eq

section \<open>Lemmas on searching and trimming\<close>

lemma searchFrom_append:
  "matchFrom r (if pre = [] then p0 else Some (last pre), w) \<noteq> [] \<Longrightarrow> searchFrom r p0 (pre @ w)"
proof (induction pre arbitrary: p0)
  case Nil
  then show ?case by (cases w) simp_all
next
  case (Cons c pre)
  then show ?case by (cases pre) auto
qed

lemma test_at: "matchFrom r (lastChar pre, w) \<noteq> [] \<Longrightarrow> test r (pre @ w)"
  unfolding test_def lastChar_def using searchFrom_append [of r pre None w] by simp

lemma digit_is_word: "inClass digit c \<Longrightarrow> inClass wordChar c"
  by (auto simp: inClass_def digit_def wordChar_def)

lemma digit_not_space: "inClass digit c \<Longrightarrow> \<not> isWhiteSpace c"
  by (auto simp: inClass_def digit_def isWhiteSpace_def)

lemma hyphen_in_class: "inClass [(CHR ''-'', CHR ''-'')] CHR ''-''"
  by (simp add: inClass_def)

lemma ssn_matches:
  assumes "list_all (inClass digit) [d1, d2, d3, d4, d5, d6, d7, d8, d9]"
    and "\<not> isWordAt p" and "\<not> isWordAt (nextChar post)"
  shows "matchFrom ssnRegex
           (p, [d1, d2, d3, CHR ''-'', d4, d5, CHR ''-'', d6, d7, d8, d9] @ post) \<noteq> []"
  using assms digit_is_word [of d1] digit_is_word [of d9]
  by (simp add: ssnRegex_def seq_def times_def lit_def further_def eval_nat_numeral
      isWordAt_def nextChar_def hyphen_in_class)

text \<open>
  The bound on an unbounded repetition loses no match: a character class consumes a
  character at every repetition, so repeating it more often than the rest of the text
  is long reaches no further position.
\<close>

lemma upTo_enough:
  assumes consumes: "\<And>p q. q \<in> set (f p) \<Longrightarrow> length (snd q) < length (snd p)"
  shows "length (snd p) \<le> n \<Longrightarrow> n \<le> m \<Longrightarrow> set (upTo m f p) = set (upTo n f p)"
proof (induction n arbitrary: p m)
  case 0
  then have "f p = []"
    using consumes [of _ p] by (cases "f p") auto
  then show ?case
    by (cases m) simp_all
next
  case (Suc n)
  then obtain m' where m: "m = Suc m'" and le: "n \<le> m'"
    by (cases m) auto
  have "set (upTo m' f q) = set (upTo n f q)" if "q \<in> set (f p)" for q
    using Suc.IH [of q m'] consumes [OF that] Suc.prems(1) le by simp
  then show ?case
    by (simp add: m)
qed

lemma Atom_consumes:
  "q \<in> set (matchFrom (Atom cls) p) \<Longrightarrow> length (snd q) < length (snd p)"
  by (cases "snd p") (auto split: if_splits)

lemma unbounded_repeat_complete:
  "length (snd p) \<le> m \<Longrightarrow>
   set (upTo m (matchFrom (Atom cls)) p) = set (upTo (further None n p) (matchFrom (Atom cls)) p)"
  using upTo_enough [of "matchFrom (Atom cls)" p "length (snd p)" m] Atom_consumes
  by (simp add: further_def)

lemma dropWhile_keeps:
  "w \<noteq> [] \<Longrightarrow> \<not> P (hd w) \<Longrightarrow> \<exists>u. dropWhile P (pre @ w @ post) = u @ w @ post"
proof (induction pre)
  case Nil
  then show ?case by (cases w) auto
next
  case (Cons c pre)
  then show ?case by (cases "P c") (auto intro: exI [of _ "c # pre"])
qed

lemma trim_keeps:
  assumes "w \<noteq> []" and "\<not> isWhiteSpace (hd w)" and "\<not> isWhiteSpace (last w)"
  shows "sublist w (trim (pre @ w @ post))"
proof -
  obtain u where u: "dropWhile isWhiteSpace (pre @ w @ post) = u @ w @ post"
    using dropWhile_keeps [of w isWhiteSpace pre post] assms by blast
  have "rev w \<noteq> []" and "\<not> isWhiteSpace (hd (rev w))"
    using assms by (simp_all add: hd_rev)
  then obtain v where "dropWhile isWhiteSpace (rev post @ rev w @ rev u) = v @ rev w @ rev u"
    using dropWhile_keeps [of "rev w" isWhiteSpace "rev post" "rev u"] by blast
  then have "trim (pre @ w @ post) = u @ w @ rev v"
    by (simp add: trim_def u)
  then show ?thesis
    by (auto simp: sublist_def)
qed

lemma sublist_nonempty: "sublist w t \<Longrightarrow> w \<noteq> [] \<Longrightarrow> t \<noteq> []"
  by (auto simp: sublist_def)

text \<open>What \<open>trim\<close> removes and what it leaves.\<close>

lemma trim_split:
  "dropWhile isWhiteSpace s = trim s @ rev (takeWhile isWhiteSpace (rev (dropWhile isWhiteSpace s)))"
  unfolding trim_def by (metis rev_append rev_rev_ident takeWhile_dropWhile_id)

lemma trim_decompose:
  "\<exists>u v. s = u @ trim s @ v \<and> list_all isWhiteSpace u \<and> list_all isWhiteSpace v"
proof -
  let ?u = "takeWhile isWhiteSpace s"
  let ?v = "rev (takeWhile isWhiteSpace (rev (dropWhile isWhiteSpace s)))"
  have "s = ?u @ dropWhile isWhiteSpace s"
    by simp
  then have "s = ?u @ trim s @ ?v"
    using trim_split [of s] by simp
  moreover have "list_all isWhiteSpace ?u" and "list_all isWhiteSpace ?v"
    by (auto simp: list_all_iff dest: set_takeWhileD)
  ultimately show ?thesis
    by blast
qed

lemma trim_ends:
  assumes "trim s \<noteq> []"
  shows "\<not> isWhiteSpace (hd (trim s)) \<and> \<not> isWhiteSpace (last (trim s))"
proof -
  let ?d = "dropWhile isWhiteSpace s"
  let ?x = "dropWhile isWhiteSpace (rev ?d)"
  have x: "?x \<noteq> []"
    using assms by (simp add: trim_def)
  then have "\<not> isWhiteSpace (hd ?x)"
    by (rule hd_dropWhile)
  then have l: "\<not> isWhiteSpace (last (trim s))"
    using x by (simp add: trim_def last_rev)
  have "hd ?d = hd (trim s)" and "?d \<noteq> []"
    using assms trim_split [of s] by (metis hd_append2, metis append_is_Nil_conv)
  then have "\<not> isWhiteSpace (hd (trim s))"
    using hd_dropWhile [of isWhiteSpace s] by simp
  then show ?thesis
    using l by simp
qed

lemma dropWhile_id_hd: "xs \<noteq> [] \<Longrightarrow> \<not> P (hd xs) \<Longrightarrow> dropWhile P xs = xs"
  by (cases xs) simp_all

lemma trim_id_iff:
  assumes "trim s \<noteq> []"
  shows "trim s = s \<longleftrightarrow> \<not> isWhiteSpace (hd s) \<and> \<not> isWhiteSpace (last s)"
proof
  assume "trim s = s"
  then show "\<not> isWhiteSpace (hd s) \<and> \<not> isWhiteSpace (last s)"
    using trim_ends [OF assms] by simp
next
  assume ends: "\<not> isWhiteSpace (hd s) \<and> \<not> isWhiteSpace (last s)"
  have s: "s \<noteq> []"
    using assms by (auto simp: trim_def)
  then have "dropWhile isWhiteSpace s = s"
    using ends by (simp add: dropWhile_id_hd)
  moreover have "dropWhile isWhiteSpace (rev s) = rev s"
    using s ends by (intro dropWhile_id_hd) (simp_all add: hd_rev)
  ultimately show "trim s = s"
    by (simp add: trim_def)
qed

section \<open>Lemmas on numbers\<close>

lemma two_power_powr: "0 \<le> i \<Longrightarrow> (2::real) ^ nat i = 2 powr real_of_int i"
  by (simp add: powr_realpow [symmetric])

lemma finiteValue_powr: "finiteValue m e = of_int m * 2 powr real_of_int e"
proof (cases "0 \<le> e")
  case True
  then show ?thesis
    by (simp add: finiteValue_def two_power_powr)
next
  case False
  then have "(2::real) ^ nat (- e) = 2 powr real_of_int (- e)"
    by (intro two_power_powr) simp
  then show ?thesis
    using False by (simp add: finiteValue_def powr_minus field_simps)
qed

lemma scaled_value:
  assumes "k \<le> e"
  shows "real_of_int (m * 2 ^ nat (e - k)) = finiteValue m e / 2 powr real_of_int k"
proof -
  have "(2::real) ^ nat (e - k) = 2 powr real_of_int (e - k)"
    using assms by (intro two_power_powr) simp
  then show ?thesis
    by (simp add: finiteValue_powr powr_diff)
qed

lemma lessThan_value:
  "lessThan (Finite m1 e1) (Finite m2 e2) \<longleftrightarrow> finiteValue m1 e1 < finiteValue m2 e2"
proof -
  let ?k = "min e1 e2"
  have "m1 * 2 ^ nat (e1 - ?k) < m2 * 2 ^ nat (e2 - ?k)
      \<longleftrightarrow> real_of_int (m1 * 2 ^ nat (e1 - ?k)) < real_of_int (m2 * 2 ^ nat (e2 - ?k))"
    by (simp only: of_int_less_iff)
  also have "\<dots> \<longleftrightarrow> finiteValue m1 e1 / 2 powr real_of_int ?k < finiteValue m2 e2 / 2 powr real_of_int ?k"
    by (simp only: scaled_value [of ?k e1 m1] scaled_value [of ?k e2 m2] min.cobounded1 min.cobounded2)
  also have "\<dots> \<longleftrightarrow> finiteValue m1 e1 < finiteValue m2 e2"
    by (simp add: divide_less_cancel)
  finally show ?thesis
    by (simp add: Let_def)
qed

lemma literals_nearest:
  "\<bar>finiteValue 5404319552844595 (- 53) - 0.6\<bar> < 1 / 2 ^ 54"
  "\<bar>finiteValue 7205759403792794 (- 53) - 0.8\<bar> < 1 / 2 ^ 54"
  by (simp_all add: finiteValue_def abs_if field_simps)

lemmas round_simps = integerLiteral_def literal_0_6_def literal_0_8_def roundToDouble_def
  bitLength.simps Let_def

lemma products:
  "multiply (integerLiteral 85) literal_0_6 = Finite 7177611906121728 (- 47)"
  "multiply (integerLiteral 85) literal_0_8 = Finite 4785074604081152 (- 46)"
  "multiply (integerLiteral 90) literal_0_6 = Finite 7599824371187712 (- 47)"
  "multiply (integerLiteral 90) literal_0_8 = Finite 5066549580791808 (- 46)"
  "multiply (integerLiteral 80) literal_0_6 = Finite 6755399441055744 (- 47)"
  "multiply (integerLiteral 80) literal_0_8 = Finite 4503599627370496 (- 46)"
  by (simp_all add: round_simps)

lemma product_values:
  "finiteValue 7177611906121728 (- 47) = 51"
  "finiteValue 4785074604081152 (- 46) = 68"
  "finiteValue 7599824371187712 (- 47) = 54"
  "finiteValue 5066549580791808 (- 46) = 72"
  "finiteValue 6755399441055744 (- 47) = 48"
  "finiteValue 4503599627370496 (- 46) = 64"
  by (simp_all add: finiteValue_def)

lemma bands_at:
  assumes "multiply (integerLiteral t) literal_0_6 = Finite m6 e6"
    and "multiply (integerLiteral t) literal_0_8 = Finite m8 e8"
    and "finiteValue m6 e6 = 0.6 * real_of_int t"
    and "finiteValue m8 e8 = 0.8 * real_of_int t"
    and "0 \<le> t"
  shows "(getStatusColor (Finite m e) (integerLiteral t) = ''text-green-400''
            \<longleftrightarrow> finiteValue m e < 0.6 * real_of_int t)
     \<and> (getStatusColor (Finite m e) (integerLiteral t) = ''text-yellow-400''
            \<longleftrightarrow> 0.6 * real_of_int t \<le> finiteValue m e \<and> finiteValue m e < 0.8 * real_of_int t)
     \<and> (getStatusColor (Finite m e) (integerLiteral t) = ''text-red-400''
            \<longleftrightarrow> 0.8 * real_of_int t \<le> finiteValue m e)
     \<and> getStatusColor NaN (integerLiteral t) = ''text-red-400''
     \<and> getStatusColor PosInfinity (integerLiteral t) = ''text-red-400''
     \<and> getStatusColor NegInfinity (integerLiteral t) = ''text-green-400''"
proof -
  have "0.6 * real_of_int t \<le> 0.8 * real_of_int t"
    using assms(5) by simp
  then show ?thesis
    unfolding getStatusColor_def assms(1,2) lessThan_value assms(3,4)
    by auto
qed

section \<open>Lemmas on sending a message\<close>

lemma handleSendMessage_commands:
  "trim (message a) \<noteq> [] \<Longrightarrow> \<not> isLoading a \<Longrightarrow>
   snd (handleSendMessage invoke t1 t2 a) = [send_message (trim (message a)) (selectedModel (store a))]"
  by (simp add: handleSendMessage_def Let_def)

lemma handleSendMessage_failure:
  assumes "trim (message a) \<noteq> []" and "\<not> isLoading a"
    and "invoke (send_message (trim (message a)) (selectedModel (store a))) = Inl error"
  shows "fst (handleSendMessage invoke t1 t2 a) =
     a\<lparr>message := [], isLoading := False,
        store := (store a)\<lparr>messages := messages (store a) @
          [\<lparr>role = User, content = trim (message a), timestamp = t1\<rparr>,
           \<lparr>role = System, content = ''Error: '' @ error, timestamp = t2\<rparr>]\<rparr>\<rparr>"
  using assms by (simp add: handleSendMessage_def Let_def addMessage_eq)

lemma handleSendMessage_success:
  assumes "trim (message a) \<noteq> []" and "\<not> isLoading a"
    and "invoke (send_message (trim (message a)) (selectedModel (store a))) = Inr response"
  shows "fst (handleSendMessage invoke t1 t2 a) =
     a\<lparr>message := [], isLoading := False,
        store := (store a)\<lparr>messages := messages (store a) @
          [\<lparr>role = User, content = trim (message a), timestamp = t1\<rparr>,
           \<lparr>role = Assistant, content = response, timestamp = t2\<rparr>]\<rparr>\<rparr>"
  using assms by (simp add: handleSendMessage_def Let_def addMessage_eq)

section \<open>Redaction before dispatch\<close>

text \<open>
  C1, as amended. No code rewrites the text: \<open>PIIGuard\<close> only lists the kinds of PII it
  found, and \<open>handleSendMessage\<close> passes the trimmed input itself to \<open>send_message\<close>.
  For every input text in which an SSN-shaped substring (three digits, hyphen, two
  digits, hyphen, four digits) stands between word boundaries, the findings of
  \<open>PIIGuard\<close> include \<open>SSN\<close>, and the text that \<open>send_message\<close> receives is the trimmed
  input, which still contains that substring.
\<close>

theorem ssn_detected_but_sent_unredacted:
  assumes digits: "list_all (inClass digit) [d1, d2, d3, d4, d5, d6, d7, d8, d9]"
    and w: "w = [d1, d2, d3, CHR ''-'', d4, d5, CHR ''-'', d6, d7, d8, d9]"
    and before: "\<not> isWordAt (lastChar pre)"
    and after: "\<not> isWordAt (nextChar post)"
    and msg: "message a = pre @ w @ post"
    and idle: "\<not> isLoading a"
  shows "''SSN'' \<in> set (fst (PIIGuard (message a)))
     \<and> snd (handleSendMessage invoke t1 t2 a)
         = [send_message (trim (message a)) (selectedModel (store a))]
     \<and> sublist w (trim (message a))"
proof -
  have "matchFrom ssnRegex (lastChar pre, w @ post) \<noteq> []"
    unfolding w using ssn_matches [OF digits before after] by simp
  then have "test ssnRegex (message a)"
    using test_at [of ssnRegex pre "w @ post"] by (simp add: msg)
  then have found: "''SSN'' \<in> set (fst (PIIGuard (message a)))"
    by (simp add: PIIGuard_def detect_def patterns_def Let_def)
  have "\<not> isWhiteSpace (hd w)" and "\<not> isWhiteSpace (last w)" and "w \<noteq> []"
    using digits by (simp_all add: w digit_not_space)
  then have sub: "sublist w (trim (message a))"
    unfolding msg by (intro trim_keeps)
  then have "trim (message a) \<noteq> []"
    using sublist_nonempty \<open>w \<noteq> []\<close> by blast
  then show ?thesis
    using found sub idle by (simp add: handleSendMessage_commands)
qed

theorem ssn_detected_but_sent_unredacted_witness:
  "''SSN'' \<in> set (fst (PIIGuard ''my number is 078-05-1120 thanks''))
   \<and> snd (handleSendMessage (\<lambda>c. Inl ''offline'') 1 2 ((initialApp 0)\<lparr>message := ''my number is 078-05-1120 thanks''\<rparr>))
       = [send_message ''my number is 078-05-1120 thanks'' ''llama2-7b'']
   \<and> sublist ''078-05-1120'' ''my number is 078-05-1120 thanks''"
proof -
  have t: "trim ''my number is 078-05-1120 thanks'' = ''my number is 078-05-1120 thanks''"
    by (simp add: trim_def isWhiteSpace_def)
  have d: "list_all (inClass digit) [CHR ''0'', CHR ''7'', CHR ''8'', CHR ''0'', CHR ''5'',
      CHR ''1'', CHR ''1'', CHR ''2'', CHR ''0'']"
    by (simp add: inClass_def digit_def)
  have b: "\<not> isWordAt (lastChar ''my number is '')"
    by (simp add: isWordAt_def lastChar_def inClass_def wordChar_def)
  have e: "\<not> isWordAt (nextChar '' thanks'')"
    by (simp add: isWordAt_def nextChar_def inClass_def wordChar_def)
  show ?thesis
    using ssn_detected_but_sent_unredacted [OF d refl b e,
        of "(initialApp 0)\<lparr>message := ''my number is 078-05-1120 thanks''\<rparr>" "\<lambda>c. Inl ''offline''" 1 2] t
    by (simp add: initialApp_def initialStore_def)
qed

text \<open>
  The claim as stated fails. With the input \<open>SSN: 123-45-6789\<close> the guard finds \<open>SSN\<close>,
  yet \<open>send_message\<close> receives the original text; and \<open>id123-45-6789\<close> contains an
  SSN-shaped substring for which the guard finds nothing, since no word boundary
  precedes it.
\<close>

theorem redaction_counterexample:
  "snd (handleSendMessage (\<lambda>c. Inr ''ok'') 1 2 ((initialApp 0)\<lparr>message := ''SSN: 123-45-6789''\<rparr>))
     = [send_message ''SSN: 123-45-6789'' ''llama2-7b'']
   \<and> fst (PIIGuard ''SSN: 123-45-6789'') = [''SSN'']
   \<and> fst (PIIGuard ''id123-45-6789'') = []"
proof -
  have "trim ''SSN: 123-45-6789'' = ''SSN: 123-45-6789''"
    by (simp add: trim_def isWhiteSpace_def)
  then have "snd (handleSendMessage (\<lambda>c. Inr ''ok'') 1 2 ((initialApp 0)\<lparr>message := ''SSN: 123-45-6789''\<rparr>))
     = [send_message ''SSN: 123-45-6789'' ''llama2-7b'']"
    by (simp add: handleSendMessage_def initialApp_def initialStore_def Let_def)
  moreover have "fst (PIIGuard ''SSN: 123-45-6789'') = [''SSN'']"
    by code_simp
  moreover have "fst (PIIGuard ''id123-45-6789'') = []"
    by code_simp
  ultimately show ?thesis by simp
qed

section \<open>Clean input\<close>

text \<open>
  C2, as amended. For every input text that is not blank, with or without findings of
  the scan, what \<open>send_message\<close> receives and what is stored as the user's message is
  the input without the white space at its two ends, and otherwise character for
  character: the input is that text between two runs of white space, and the text
  neither starts nor ends with white space. It is the input itself exactly when the
  input neither starts nor ends with white space.
\<close>

theorem input_sent_trimmed:
  assumes "trim (message a) \<noteq> []" and "\<not> isLoading a"
  shows "snd (handleSendMessage invoke t1 t2 a)
         = [send_message (trim (message a)) (selectedModel (store a))]
     \<and> messages (store (fst (handleSendMessage invoke t1 t2 a))) ! length (messages (store a))
         = \<lparr>role = User, content = trim (message a), timestamp = t1\<rparr>
     \<and> (\<exists>u v. message a = u @ trim (message a) @ v
            \<and> list_all isWhiteSpace u \<and> list_all isWhiteSpace v)
     \<and> \<not> isWhiteSpace (hd (trim (message a)))
     \<and> \<not> isWhiteSpace (last (trim (message a)))
     \<and> (trim (message a) = message a
            \<longleftrightarrow> \<not> isWhiteSpace (hd (message a)) \<and> \<not> isWhiteSpace (last (message a)))"
proof -
  have "messages (store (fst (handleSendMessage invoke t1 t2 a))) ! length (messages (store a))
         = \<lparr>role = User, content = trim (message a), timestamp = t1\<rparr>"
  proof (cases "invoke (send_message (trim (message a)) (selectedModel (store a)))")
    case (Inl error)
    then show ?thesis
      using assms handleSendMessage_failure [of a invoke error t1 t2] by (simp add: nth_append)
  next
    case (Inr response)
    then show ?thesis
      using assms handleSendMessage_success [of a invoke response t1 t2] by (simp add: nth_append)
  qed
  then show ?thesis
    using assms trim_decompose [of "message a"] trim_ends [of "message a"]
      trim_id_iff [of "message a"]
    by (simp add: handleSendMessage_commands)
qed

theorem input_sent_trimmed_witness:
  "snd (handleSendMessage (\<lambda>c. Inr ''hi there'') 1 2 ((initialApp 0)\<lparr>message := '' hello world  ''\<rparr>))
     = [send_message ''hello world'' ''llama2-7b'']
   \<and> messages (store (fst (handleSendMessage (\<lambda>c. Inr ''hi there'') 1 2
        ((initialApp 0)\<lparr>message := '' hello world  ''\<rparr>)))) ! 0
       = \<lparr>role = User, content = ''hello world'', timestamp = 1\<rparr>
   \<and> ''hello world'' \<noteq> '' hello world  ''"
proof -
  have t: "trim '' hello world  '' = ''hello world''"
    by (simp add: trim_def isWhiteSpace_def)
  have n: "trim (message ((initialApp 0)\<lparr>message := '' hello world  ''\<rparr>)) \<noteq> []"
    by (simp add: t)
  have i: "\<not> isLoading ((initialApp 0)\<lparr>message := '' hello world  ''\<rparr>)"
    by (simp add: initialApp_def)
  show ?thesis
    using input_sent_trimmed [OF n i, of "\<lambda>c. Inr ''hi there''" 1 2]
    by (simp add: t initialApp_def initialStore_def)
qed

text \<open>
  The claim as stated fails: the scan finds nothing in the input \<open> hello \<close> (with a
  space at each end), and \<open>send_message\<close> receives \<open>hello\<close>, which is not the input.
\<close>

theorem clean_input_counterexample:
  "fst (PIIGuard '' hello '') = []
   \<and> snd (handleSendMessage (\<lambda>c. Inr ''hi there'') 1 2 ((initialApp 0)\<lparr>message := '' hello ''\<rparr>))
       = [send_message ''hello'' ''llama2-7b'']
   \<and> ''hello'' \<noteq> '' hello ''"
proof -
  have "fst (PIIGuard '' hello '') = []"
    by code_simp
  moreover have "trim '' hello '' = ''hello''"
    by (simp add: trim_def isWhiteSpace_def)
  then have "snd (handleSendMessage (\<lambda>c. Inr ''hi there'') 1 2 ((initialApp 0)\<lparr>message := '' hello ''\<rparr>))
       = [send_message ''hello'' ''llama2-7b'']"
    by (simp add: handleSendMessage_def initialApp_def initialStore_def Let_def)
  ultimately show ?thesis
    by simp
qed

section \<open>Selecting a model\<close>

text \<open>
  C3, as amended. For every model name, selecting it always succeeds and makes it the
  selected model, whatever the state of the model: \<open>handleModelSelect\<close> closes the menu
  and \<open>setSelectedModel\<close> stores the name, with no check and no error.
\<close>

theorem select_always_succeeds:
  "handleModelSelect model (ms, s) = (ms\<lparr>isOpen := False\<rparr>, s\<lparr>selectedModel := model\<rparr>)
   \<and> selectedModel (setSelectedModel model s) = model"
  by (simp add: handleModelSelect_def setSelectedModel_eq)

text \<open>
  The claim as stated fails: a model that is being downloaded is selected, the previous
  selection is lost, and so is a name that is not among the available models.
\<close>

theorem select_counterexample:
  "selectedModel (initialStore 0) = ''llama2-7b''
   \<and> selectedModel (snd (handleModelSelect ''mistral-7b''
        (\<lparr>isOpen = True, downloading = Some ''mistral-7b''\<rparr>, initialStore 0))) = ''mistral-7b''
   \<and> selectedModel (setSelectedModel ''no-such-model'' (initialStore 0)) = ''no-such-model''
   \<and> ''no-such-model'' \<notin> set (availableModels (initialStore 0))"
  by (simp add: handleModelSelect_def setSelectedModel_eq initialStore_def)

section \<open>The message log\<close>

lemma messages_after_appends:
  "messages (foldl (\<lambda>st m. addMessage m st) s ms) = messages s @ ms"
  by (induction ms arbitrary: s) (simp_all add: addMessage_eq)

text \<open>
  C4, as amended. The store has one message log, not one per conversation. Every
  sequence of \<open>addMessage\<close> calls places each message at the end, after the messages
  already there and in the order of the calls; no store action other than
  \<open>clearMessages\<close> changes the log; and the timestamps stay non-decreasing when each
  appended message carries a timestamp that is no less than the last one's.
\<close>

theorem messages_append_only:
  "messages (foldl (\<lambda>st m. addMessage m st) s ms) = messages s @ ms
   \<and> messages (addDocument d s) = messages s
   \<and> messages (setSelectedModel model s) = messages s
   \<and> messages (setAvailableModels models s) = messages s
   \<and> messages (setProcessing b s) = messages s
   \<and> messages (setSystemHealth h s) = messages s
   \<and> messages (addConversation c s) = messages s
   \<and> messages (setCurrentConversation i s) = messages s
   \<and> (sorted (map timestamp (messages s @ ms)) \<longrightarrow>
        sorted (map timestamp (messages (foldl (\<lambda>st m. addMessage m st) s ms))))"
  unfolding messages_after_appends
  by (simp add: addDocument_eq setSelectedModel_eq setAvailableModels_eq setProcessing_eq
      setSystemHealth_eq addConversation_eq setCurrentConversation_eq)

theorem messages_append_only_witness:
  "messages (foldl (\<lambda>st m. addMessage m st) (initialStore 0)
      [\<lparr>role = User, content = ''hi'', timestamp = 3\<rparr>,
       \<lparr>role = Assistant, content = ''hello'', timestamp = 5\<rparr>])
     = [\<lparr>role = User, content = ''hi'', timestamp = 3\<rparr>,
        \<lparr>role = Assistant, content = ''hello'', timestamp = 5\<rparr>]
   \<and> sorted (map timestamp (messages (foldl (\<lambda>st m. addMessage m st) (initialStore 0)
      [\<lparr>role = User, content = ''hi'', timestamp = 3\<rparr>,
       \<lparr>role = Assistant, content = ''hello'', timestamp = 5\<rparr>])))"
  using messages_append_only [of "initialStore 0"
      "[\<lparr>role = User, content = ''hi'', timestamp = 3\<rparr>,
        \<lparr>role = Assistant, content = ''hello'', timestamp = 5\<rparr>]"]
  by (simp add: initialStore_def)

text \<open>
  The claim as stated fails: \<open>clearMessages\<close>, which \<open>handleNewChat\<close> calls, removes every
  message; and \<open>addMessage\<close> takes a message whose timestamp is below the last one's.
\<close>

theorem messages_counterexample:
  "messages (clearMessages (addMessage \<lparr>role = User, content = ''hi'', timestamp = 5\<rparr> (initialStore 0))) = []
   \<and> messages (store (handleNewChat 7 7
        ((initialApp 0)\<lparr>store := addMessage \<lparr>role = User, content = ''hi'', timestamp = 5\<rparr> (initialStore 0)\<rparr>))) = []
   \<and> map timestamp (messages (addMessage \<lparr>role = Assistant, content = ''yo'', timestamp = 3\<rparr>
        (addMessage \<lparr>role = User, content = ''hi'', timestamp = 5\<rparr> (initialStore 0)))) = [5, 3]"
  by (simp add: store_action_eqs handleNewChat_def initialStore_def initialApp_def Let_def)

section \<open>The current conversation\<close>

lemma reachable_current: "reachable s \<Longrightarrow> currentConversations s \<noteq> []"
proof (induction rule: reachable.induct)
  case (r_init now)
  show ?case by (simp add: currentConversations_def initialStore_def)
next
  case (r_setCurrentConversation s c)
  then show ?case
    by (auto simp: currentConversations_def setCurrentConversation_eq filter_empty_conv)
qed (simp_all add: currentConversations_def store_action_eqs)

text \<open>The handlers of the components stay within the reachable states.\<close>

lemma handleNewChat_reachable:
  "reachable (store a) \<Longrightarrow> reachable (store (handleNewChat now1 now2 a))"
proof -
  assume r: "reachable (store a)"
  let ?c = "\<lparr>conv_id = toString now1, conv_title = ''New Chat'', conv_timestamp = now2,
             conv_messages = []\<rparr>"
  have "reachable (addConversation ?c (store a))"
    using r by (rule r_addConversation)
  moreover have "?c \<in> set (conversations (addConversation ?c (store a)))"
    by (simp add: addConversation_eq)
  ultimately have "reachable (setCurrentConversation (conv_id ?c) (addConversation ?c (store a)))"
    by (rule r_setCurrentConversation)
  then have "reachable (clearMessages (setCurrentConversation (conv_id ?c) (addConversation ?c (store a))))"
    by (rule r_clearMessages)
  then show ?thesis
    by (simp add: handleNewChat_def Let_def)
qed

lemma clickConversation_reachable:
  "reachable (store a) \<Longrightarrow> reachable (store (clickConversation k a))"
  by (simp add: clickConversation_def r_setCurrentConversation)

lemma handleSendMessage_reachable:
  "reachable (store a) \<Longrightarrow> reachable (store (fst (handleSendMessage invoke t1 t2 a)))"
  by (auto simp: handleSendMessage_def Let_def split: sum.splits intro: r_addMessage)

lemma handleModelSelect_reachable:
  "reachable s \<Longrightarrow> reachable (snd (handleModelSelect model (ms, s)))"
  by (simp add: handleModelSelect_def r_setSelectedModel)

text \<open>
  C5, as amended. Switching the current conversation always succeeds, whether or not
  the id is present: it sets the pointer to the id it is given and changes no other
  field, so no message log. In every store state that the components can reach, where
  \<open>setCurrentConversation\<close> is only called with the id of a listed conversation,
  \<open>currentConversationId\<close> resolves to at least one existing conversation.
\<close>

theorem current_conversation_resolves:
  assumes "reachable s"
  shows "currentConversations s \<noteq> []
     \<and> setCurrentConversation i s' = s'\<lparr>currentConversationId := i\<rparr>
     \<and> messages (setCurrentConversation i s') = messages s'
     \<and> conversations (setCurrentConversation i s') = conversations s'"
  using reachable_current [OF assms] by (simp add: setCurrentConversation_eq)

theorem current_conversation_resolves_witness:
  "currentConversations (store (clickConversation 0 (handleNewChat 1700000000000 1700000000000 (initialApp 0)))) \<noteq> []
   \<and> setCurrentConversation ''1'' (initialStore 0) = (initialStore 0)\<lparr>currentConversationId := ''1''\<rparr>
   \<and> messages (setCurrentConversation ''1'' (initialStore 0)) = messages (initialStore 0)
   \<and> conversations (setCurrentConversation ''1'' (initialStore 0)) = conversations (initialStore 0)"
proof -
  have "reachable (store (initialApp 0))"
    by (simp add: initialApp_def r_init)
  then have "reachable (store (clickConversation 0 (handleNewChat 1700000000000 1700000000000 (initialApp 0))))"
    by (intro clickConversation_reachable handleNewChat_reachable)
  then show ?thesis
    by (rule current_conversation_resolves)
qed

text \<open>
  The claim as stated fails: an id that no conversation has is accepted and becomes the
  pointer, which then resolves to no conversation; and after two new chats whose ids
  were read from the clock in the same millisecond it resolves to two.
\<close>

theorem current_conversation_counterexample:
  "currentConversationId (setCurrentConversation ''nope'' (initialStore 0)) = ''nope''
   \<and> currentConversations (setCurrentConversation ''nope'' (initialStore 0)) = []
   \<and> length (currentConversations (store (handleNewChat 7 7 (handleNewChat 7 7 (initialApp 0))))) = 2"
proof -
  have "toString 7 = ''7''"
    by (simp add: toString.simps digitChar_def)
  then show ?thesis
    by (simp add: currentConversations_def store_action_eqs handleNewChat_def initialStore_def
        initialApp_def Let_def)
qed

section \<open>Bands of the status colour\<close>

text \<open>
  C6, as amended. For each threshold that the status bar passes (85, 90 and 80) and
  every finite metric value, the metric is nominal (green) exactly when the value is
  below 60% of the threshold, warning (yellow) exactly when it is at least 60% and
  below 80% of it, and unsafe (red) exactly when it is at or above 80% of it. A metric
  that is not a number (an undefined field) is red, as is \<open>+Infinity\<close>; \<open>-Infinity\<close> is
  green. A cpu usage of 95 against the threshold 85 is red, one of 40 is green.
\<close>

theorem getStatusColor_bands_of_status_bar:
  assumes "t \<in> {85, 90, 80}"
  shows "(getStatusColor (Finite m e) (integerLiteral t) = ''text-green-400''
            \<longleftrightarrow> finiteValue m e < 0.6 * real_of_int t)
     \<and> (getStatusColor (Finite m e) (integerLiteral t) = ''text-yellow-400''
            \<longleftrightarrow> 0.6 * real_of_int t \<le> finiteValue m e \<and> finiteValue m e < 0.8 * real_of_int t)
     \<and> (getStatusColor (Finite m e) (integerLiteral t) = ''text-red-400''
            \<longleftrightarrow> 0.8 * real_of_int t \<le> finiteValue m e)
     \<and> getStatusColor NaN (integerLiteral t) = ''text-red-400''
     \<and> getStatusColor PosInfinity (integerLiteral t) = ''text-red-400''
     \<and> getStatusColor NegInfinity (integerLiteral t) = ''text-green-400''
     \<and> getStatusColor (integerLiteral 95) (integerLiteral 85) = ''text-red-400''
     \<and> getStatusColor (integerLiteral 40) (integerLiteral 85) = ''text-green-400''"
proof -
  have bands: "(getStatusColor (Finite m e) (integerLiteral t) = ''text-green-400''
            \<longleftrightarrow> finiteValue m e < 0.6 * real_of_int t)
     \<and> (getStatusColor (Finite m e) (integerLiteral t) = ''text-yellow-400''
            \<longleftrightarrow> 0.6 * real_of_int t \<le> finiteValue m e \<and> finiteValue m e < 0.8 * real_of_int t)
     \<and> (getStatusColor (Finite m e) (integerLiteral t) = ''text-red-400''
            \<longleftrightarrow> 0.8 * real_of_int t \<le> finiteValue m e)
     \<and> getStatusColor NaN (integerLiteral t) = ''text-red-400''
     \<and> getStatusColor PosInfinity (integerLiteral t) = ''text-red-400''
     \<and> getStatusColor NegInfinity (integerLiteral t) = ''text-green-400''"
  proof -
    consider "t = 85" | "t = 90" | "t = 80"
      using assms by auto
    then show ?thesis
    proof cases
      case 1
      show ?thesis
        unfolding 1 by (rule bands_at [OF products(1) products(2)]) (simp_all add: product_values)
    next
      case 2
      show ?thesis
        unfolding 2 by (rule bands_at [OF products(3) products(4)]) (simp_all add: product_values)
    next
      case 3
      show ?thesis
        unfolding 3 by (rule bands_at [OF products(5) products(6)]) (simp_all add: product_values)
    qed
  qed
  have "getStatusColor (integerLiteral 95) (integerLiteral 85) = ''text-red-400''"
    using bands_at [OF products(1) products(2), of 95 0]
    by (simp add: product_values integerLiteral_def finiteValue_def)
  moreover have "getStatusColor (integerLiteral 40) (integerLiteral 85) = ''text-green-400''"
    using bands_at [OF products(1) products(2), of 40 0]
    by (simp add: product_values integerLiteral_def finiteValue_def)
  ultimately show ?thesis
    using bands by simp
qed

theorem getStatusColor_bands_of_status_bar_witness:
  "getStatusColor (integerLiteral 51) (integerLiteral 85) = ''text-yellow-400''
   \<and> getStatusColor (Finite 7177611906121727 (- 47)) (integerLiteral 85) = ''text-green-400''
   \<and> getStatusColor (integerLiteral 68) (integerLiteral 85) = ''text-red-400''
   \<and> getStatusColor NaN (integerLiteral 85) = ''text-red-400''"
proof -
  have t: "(85::int) \<in> {85, 90, 80}"
    by simp
  show ?thesis
    using getStatusColor_bands_of_status_bar [OF t, of 51 0]
      getStatusColor_bands_of_status_bar [OF t, of 7177611906121727 "- 47"]
      getStatusColor_bands_of_status_bar [OF t, of 68 0]
    by (simp add: integerLiteral_def finiteValue_def)
qed

text \<open>
  The claim as stated fails. Against the threshold 3 the value \<open>1.7999999999999998\<close>
  is below 60% of the threshold and yet yellow, since it is the product \<open>3 * 0.6\<close> in
  double arithmetic; against the threshold \<open>-10\<close> the value \<open>-7\<close> is at least 80% of the
  threshold and yet green; and a metric that is not a number is red against 85
  without being at or above anything.
\<close>

theorem getStatusColor_counterexample:
  "getStatusColor (Finite 8106479329266892 (- 52)) (integerLiteral 3) = ''text-yellow-400''
   \<and> finiteValue 8106479329266892 (- 52) < 0.6 * 3
   \<and> getStatusColor (integerLiteral (- 7)) (integerLiteral (- 10)) = ''text-green-400''
   \<and> 0.8 * (- 10) \<le> finiteValue (- 7) 0
   \<and> getStatusColor NaN (integerLiteral 85) = ''text-red-400''"
proof -
  have "multiply (integerLiteral 3) literal_0_6 = Finite 8106479329266892 (- 52)"
    and "multiply (integerLiteral 3) literal_0_8 = Finite 5404319552844596 (- 51)"
    and "multiply (integerLiteral (- 10)) literal_0_6 = Finite (- 6755399441055744) (- 50)"
    by (simp_all add: round_simps)
  then have "getStatusColor (Finite 8106479329266892 (- 52)) (integerLiteral 3) = ''text-yellow-400''"
    and "getStatusColor (integerLiteral (- 7)) (integerLiteral (- 10)) = ''text-green-400''"
    by (simp_all add: getStatusColor_def integerLiteral_def)
  moreover have "finiteValue 8106479329266892 (- 52) < 0.6 * 3"
    and "0.8 * (- 10) \<le> finiteValue (- 7) 0"
    by (simp_all add: finiteValue_def)
  moreover have "getStatusColor NaN (integerLiteral 85) = ''text-red-400''"
    by (simp add: getStatusColor_def products)
  ultimately show ?thesis
    by simp
qed

section \<open>A failing backend\<close>

text \<open>
  C7. For every failure of the \<open>send_message\<close> call, the handler ends normally: the error
  is turned into a message of role \<open>system\<close> (\<open>Error: \<close> followed by the error) that is
  appended to the log after the user's message, and \<open>isLoading\<close> is false again, so the
  next message is sent as usual.
\<close>

theorem backend_failure_surfaced:
  assumes "trim (message a) \<noteq> []" and "\<not> isLoading a"
    and "invoke (send_message (trim (message a)) (selectedModel (store a))) = Inl error"
    and "a' = fst (handleSendMessage invoke t1 t2 a)"
    and "trim next \<noteq> []"
  shows "messages (store a') = messages (store a) @
          [\<lparr>role = User, content = trim (message a), timestamp = t1\<rparr>,
           \<lparr>role = System, content = ''Error: '' @ error, timestamp = t2\<rparr>]
     \<and> \<not> isLoading a'
     \<and> snd (handleSendMessage invoke' t3 t4 (a'\<lparr>message := next\<rparr>))
         = [send_message (trim next) (selectedModel (store a))]"
proof -
  have a': "a' = a\<lparr>message := [], isLoading := False,
        store := (store a)\<lparr>messages := messages (store a) @
          [\<lparr>role = User, content = trim (message a), timestamp = t1\<rparr>,
           \<lparr>role = System, content = ''Error: '' @ error, timestamp = t2\<rparr>]\<rparr>\<rparr>"
    using assms(1-4) by (simp add: handleSendMessage_failure)
  have "snd (handleSendMessage invoke' t3 t4 (a'\<lparr>message := next\<rparr>))
         = [send_message (trim next) (selectedModel (store a))]"
    using assms(5) handleSendMessage_commands [of "a'\<lparr>message := next\<rparr>" invoke' t3 t4]
    by (simp add: a')
  then show ?thesis
    by (simp add: a')
qed

theorem backend_failure_surfaced_witness:
  "messages (store (fst (handleSendMessage (\<lambda>c. Inl ''model not loaded'') 1 2
      ((initialApp 0)\<lparr>message := ''hello''\<rparr>))))
     = [\<lparr>role = User, content = ''hello'', timestamp = 1\<rparr>,
        \<lparr>role = System, content = ''Error: model not loaded'', timestamp = 2\<rparr>]
   \<and> \<not> isLoading (fst (handleSendMessage (\<lambda>c. Inl ''model not loaded'') 1 2
      ((initialApp 0)\<lparr>message := ''hello''\<rparr>)))
   \<and> snd (handleSendMessage (\<lambda>c. Inr ''hi'') 3 4
        ((fst (handleSendMessage (\<lambda>c. Inl ''model not loaded'') 1 2
           ((initialApp 0)\<lparr>message := ''hello''\<rparr>)))\<lparr>message := ''again''\<rparr>))
       = [send_message ''again'' ''llama2-7b'']"
proof -
  have t: "trim ''hello'' = ''hello''" and u: "trim ''again'' = ''again''"
    by (simp_all add: trim_def isWhiteSpace_def)
  have 1: "trim (message ((initialApp 0)\<lparr>message := ''hello''\<rparr>)) \<noteq> []"
    by (simp add: t)
  have 2: "\<not> isLoading ((initialApp 0)\<lparr>message := ''hello''\<rparr>)"
    by (simp add: initialApp_def)
  have 3: "(\<lambda>c. Inl ''model not loaded'')
      (send_message (trim (message ((initialApp 0)\<lparr>message := ''hello''\<rparr>)))
         (selectedModel (store ((initialApp 0)\<lparr>message := ''hello''\<rparr>)))) = Inl ''model not loaded''"
    by simp
  have 5: "trim ''again'' \<noteq> []"
    by (simp add: u)
  show ?thesis
    using backend_failure_surfaced [OF 1 2 3 refl 5, of 1 2 "\<lambda>c. Inr ''hi''" 3 4]
    by (simp add: t u initialApp_def initialStore_def)
qed

section \<open>Ids of new conversations\<close>

lemma handleNewChat_store:
  "store (handleNewChat now1 now2 a) =
     (store a)\<lparr>conversations := conversations (store a) @
         [\<lparr>conv_id = toString now1, conv_title = ''New Chat'', conv_timestamp = now2,
           conv_messages = []\<rparr>],
       currentConversationId := toString now1, messages := []\<rparr>"
  by (simp add: handleNewChat_def Let_def store_action_eqs)

text \<open>
  C8. \<open>handleNewChat\<close> creates the conversation with an empty message log and the title
  \<open>New Chat\<close> and makes it current, but its id is the clock reading and nothing else:
  two calls that read the same millisecond give two conversations the same id.
\<close>

theorem handleNewChat_same_millisecond:
  "map conv_id (conversations (store
      (handleNewChat 1700000000000 1700000000000
        (handleNewChat 1700000000000 1700000000000 (initialApp 0)))))
     = [''1'', ''1700000000000'', ''1700000000000'']"
proof -
  have "toString 1700000000000 = ''1700000000000''"
    by (simp add: toString.simps digitChar_def)
  then show ?thesis
    by (simp add: handleNewChat_store initialApp_def initialStore_def)
qed

section \<open>The scan is total\<close>

lemma detect_subseq: "subseq (detect text) (map snd patterns)"
  unfolding detect_def by (intro subseq_map subseq_filter_left)

text \<open>
  C9. The scan is a total function of the text: it is defined by recursion on the
  pattern and on the text, and it has no error result. For every text it returns some
  of the five labels, in the order of the patterns, and calls \<open>onPIICleared\<close> exactly
  when it found none. On the empty text it finds nothing.
\<close>

theorem PIIGuard_total:
  "PIIGuard [] = ([], onPIICleared)
   \<and> (\<exists>detected cb. PIIGuard text = (detected, cb)
        \<and> subseq detected [''SSN'', ''Email'', ''Phone'', ''Credit Card'', ''IP Address'']
        \<and> (cb = onPIICleared \<longleftrightarrow> detected = []))"
proof -
  have "PIIGuard [] = ([], onPIICleared)"
    by code_simp
  moreover have "subseq (detect text) [''SSN'', ''Email'', ''Phone'', ''Credit Card'', ''IP Address'']"
    using detect_subseq [of "text"] by (simp add: patterns_def)
  ultimately show ?thesis
    by (simp add: PIIGuard_def Let_def)
qed

section \<open>Frame of the store actions\<close>

text \<open>
  C10. Each store action changes its own field only: \<open>setSelectedModel\<close> changes
  \<open>selectedModel\<close>, \<open>setCurrentConversation\<close> changes \<open>currentConversationId\<close>,
  \<open>addMessage\<close> changes \<open>messages\<close>, \<open>addDocument\<close> changes \<open>documents\<close>,
  \<open>addConversation\<close> changes \<open>conversations\<close>; every other field keeps its value, and
  \<open>addConversation\<close> keeps the conversations already there (so their message logs) as
  they were, in front of the new one.
\<close>

theorem store_actions_frame:
  "setSelectedModel model s = s\<lparr>selectedModel := model\<rparr>
   \<and> setCurrentConversation i s = s\<lparr>currentConversationId := i\<rparr>
   \<and> addMessage m s = s\<lparr>messages := messages s @ [m]\<rparr>
   \<and> addDocument d s = s\<lparr>documents := documents s @ [d]\<rparr>
   \<and> addConversation c s = s\<lparr>conversations := conversations s @ [c]\<rparr>
   \<and> conversations (setSelectedModel model s) = conversations s
   \<and> conversations (setCurrentConversation i s) = conversations s
   \<and> conversations (addMessage m s) = conversations s
   \<and> conversations (addDocument d s) = conversations s
   \<and> take (length (conversations s)) (conversations (addConversation c s)) = conversations s"
  by (simp add: addMessage_eq addDocument_eq setSelectedModel_eq addConversation_eq
      setCurrentConversation_eq)

end
